theory Spec2Isabelle
  imports Complex_Main "HOL-Library.FSet" "HOL-Library.Char_ord" "HOL-Library.List_Lexorder"
    "HOL-Library.Product_Lexorder" "HOL-Library.Multiset"
begin

section \<open>The ontology explorer: field lists, match scores and ranking\<close>

text \<open>
  A shallow embedding of \<^verbatim>\<open>tools/explorer/lib/ontology_wrapper.py\<close>. Python's
  \<^verbatim>\<open>str\<close> is \<^typ>\<open>string\<close>, compared lexicographically by character code as
  Python compares strings; Python's unbounded \<^verbatim>\<open>int\<close> is \<^typ>\<open>int\<close>; a Python
  \<^verbatim>\<open>set\<close>/\<^verbatim>\<open>frozenset\<close> is a finite set (\<open>fset\<close>); a \<^verbatim>\<open>dict\<close> is the list of
  its items in insertion order; a raised exception is the \<open>Inl\<close> branch of a sum.
  Python's \<^verbatim>\<open>float\<close> results of \<^verbatim>\<open>/\<close> are modelled by exact arithmetic in
  \<^typ>\<open>real\<close>: rounding is not modelled.
\<close>

subsection \<open>Data model\<close>

text \<open>
  Modelled from the spec: the classes \<^verbatim>\<open>StandardField\<close> and \<^verbatim>\<open>EntityTypeField\<close> of
  \<^verbatim>\<open>lib/model.py\<close> are imported by the wrapper; their source is not among the sources
  verified here. The spec's FieldIdentity is a pair of namespace and local name with
  equality by that pair; its FieldDefinition adds optionality and an increment. The
  field names are the constructor's keyword arguments as \<^verbatim>\<open>parse_input.py\<close> uses
  them.
\<close>

record StandardField =
  namespace_name :: string
  standard_field_name :: string

record EntityTypeField = StandardField +
  is_optional :: bool
  increment :: string

abbreviation GetNamespaceName :: "'a StandardField_scheme \<Rightarrow> string" where
  "GetNamespaceName f \<equiv> namespace_name f"

abbreviation GetStandardFieldName :: "'a StandardField_scheme \<Rightarrow> string" where
  "GetStandardFieldName f \<equiv> standard_field_name f"

abbreviation IsOptional :: "EntityTypeField \<Rightarrow> bool" where
  "IsOptional f \<equiv> is_optional f"

text \<open>
  Modelled from the spec: \<^verbatim>\<open>model.StandardizeField\<close> projects a field definition to
  its identity (namespace and name), discarding optionality and increment.
\<close>

definition StandardizeField :: "EntityTypeField \<Rightarrow> StandardField" where
  "StandardizeField f =
     \<lparr>namespace_name = GetNamespaceName f, standard_field_name = GetStandardFieldName f\<rparr>"

text \<open>
  Modelled from the spec: the values of \<^verbatim>\<open>EntityType.GetAllFields()\<close> carry
  \<^verbatim>\<open>field.namespace\<close>, \<^verbatim>\<open>field.field\<close>, \<^verbatim>\<open>field.increment\<close> and \<^verbatim>\<open>optional\<close>
  (the attributes the wrapper reads); the classes live in \<^verbatim>\<open>entity_type_lib\<close>.
\<close>

record FieldParts =
  fp_namespace :: string
  fp_field :: string
  fp_increment :: string

record OptWrapper =
  ow_field :: FieldParts
  ow_optional :: bool

text \<open>
  Modelled from the spec: a canonical type with its abstract flag, its expansion flag,
  its flattened field mapping (\<^verbatim>\<open>GetAllFields()\<close>, a dict from qualified field key to
  field, here its items in insertion order) and its parent-type tags. As in the spec,
  reading the mapping is a plain lookup that does not fail.
\<close>

record EntityType =
  typename :: string
  is_abstract :: bool
  inherited_fields_expanded :: bool
  GetAllFields :: "(string \<times> OptWrapper) list"
  unqualified_parent_names :: "string list"

text \<open>
  Modelled from the spec: the universe is a collection of namespaces, each with a
  mapping from type name to canonical type (\<^verbatim>\<open>valid_types_map\<close>).
\<close>

record TypeNamespace =
  tns_namespace :: string
  valid_types_map :: "(string \<times> EntityType) list"

record ConfigUniverse =
  GetEntityTypeNamespaces :: "TypeNamespace list"

text \<open>
  Modelled from the spec: \<^verbatim>\<open>entity_type_universe.GetEntityType\<close> resolves a namespace
  and a type name to the canonical type, or to \<^verbatim>\<open>None\<close> when the namespace or the
  type does not exist.
\<close>

definition GetEntityType :: "ConfigUniverse \<Rightarrow> string \<Rightarrow> string \<Rightarrow> EntityType option" where
  "GetEntityType u namespace entity_type_name =
     (case find (\<lambda>tns. tns_namespace tns = namespace) (GetEntityTypeNamespaces u) of
        None \<Rightarrow> None
      | Some tns \<Rightarrow> map_of (valid_types_map tns) entity_type_name)"

text \<open>Modelled from the spec: a Match ties the concrete field list to a type and a score.\<close>

record Match =
  match_field_list :: "StandardField list"
  match_entity_type :: EntityType
  match_score :: real

abbreviation GetMatchScore :: "Match \<Rightarrow> real" where
  "GetMatchScore m \<equiv> match_score m"

text \<open>The two exception classes the wrapper raises, each with its message.\<close>

datatype error = ValueError string | Exception string

text \<open>
  The wrapper object. The attribute \<^verbatim>\<open>manager\<close> is never read by the methods below
  and is left out.
\<close>

record OntologyWrapper =
  universe :: ConfigUniverse
  match_score_threshold :: real

definition init :: "ConfigUniverse \<Rightarrow> OntologyWrapper" where
  "init u = \<lparr>universe = u, match_score_threshold = - 0.5\<rparr>"

subsection \<open>\<^verbatim>\<open>GetFieldsForTypeName\<close>\<close>

definition EntityTypeField_of :: "OptWrapper \<Rightarrow> EntityTypeField" where
  "EntityTypeField_of qualified_field =
     \<lparr>namespace_name = fp_namespace (ow_field qualified_field),
      standard_field_name = fp_field (ow_field qualified_field),
      is_optional = ow_optional qualified_field,
      increment = fp_increment (ow_field qualified_field)\<rparr>"

definition GetFieldsForTypeName ::
  "OntologyWrapper \<Rightarrow> string \<Rightarrow> string \<Rightarrow> bool \<Rightarrow> error + EntityTypeField list" where
  "GetFieldsForTypeName self namespace entity_type_name required_only =
     (case GetEntityType (universe self) namespace entity_type_name of
        None \<Rightarrow>
          if namespace = []
          then Inl (ValueError
                 (CHR 0x0A # entity_type_name @ '' is not defined in global namespace.''))
          else Inl (ValueError
                 (CHR 0x0A # entity_type_name @ '' is not defined in namespace: ''
                    @ namespace @ ''.''))
      | Some entity_type \<Rightarrow>
          if \<not> inherited_fields_expanded entity_type
          then Inl (Exception
                 (''Inherited fields must be expanded to query fields.'' @ [CHR 0x0A]
                    @ ''Run NamespaceValidator on your ConfigUniverse to expand fields.''))
          else
            let entity_type_fields =
                  map EntityTypeField_of (map snd (GetAllFields entity_type));
                entity_type_fields =
                  (if required_only
                   then filter (\<lambda>field. \<not> IsOptional field) entity_type_fields
                   else entity_type_fields)
            in Inr (sort_key GetStandardFieldName entity_type_fields))"

subsection \<open>\<^verbatim>\<open>_CalculateMatchScore\<close>\<close>

text \<open>
  The method does not read \<^verbatim>\<open>self\<close>. The six lengths are computed before the
  emptiness check, as in the source; none of them can fail.
\<close>

definition CalculateMatchScore ::
  "StandardField fset \<Rightarrow> EntityTypeField fset \<Rightarrow> error + real" where
  "CalculateMatchScore concrete_fields canonical_fields =
     (let required_canonical_fields =
            StandardizeField |`| ffilter (\<lambda>field. \<not> IsOptional field) canonical_fields;
          standard_canonical_fields = StandardizeField |`| canonical_fields;
          ma = int (fcard (concrete_fields |\<inter>| standard_canonical_fields));
          mr = int (fcard (concrete_fields |\<inter>| required_canonical_fields));
          tr = int (fcard required_canonical_fields);
          c = int (fcard concrete_fields);
          e = int (fcard (concrete_fields |-| standard_canonical_fields));
          a = int (fcard (required_canonical_fields |-| concrete_fields))
      in if c \<le> 0 then Inl (ValueError ''Concrete field set cannot be empty.'')
         else if tr \<le> 0 then Inr ((real_of_int (ma - e) / real_of_int c) / 2)
         else Inr (((real_of_int (ma - e) / real_of_int c)
                      + (real_of_int (mr - a) / real_of_int tr)) / 2))"

subsection \<open>\<^verbatim>\<open>_CreateMatch\<close> and \<^verbatim>\<open>GetEntityTypesFromFields\<close>\<close>

definition CreateMatch :: "StandardField list \<Rightarrow> EntityType \<Rightarrow> error + Match" where
  "CreateMatch field_list entity_type =
     (let canonical_field_set =
            fset_of_list (map EntityTypeField_of (map snd (GetAllFields entity_type)))
      in case CalculateMatchScore (fset_of_list field_list) canonical_field_set of
           Inl err \<Rightarrow> Inl err
         | Inr score \<Rightarrow>
             Inr \<lparr>match_field_list = field_list, match_entity_type = entity_type,
                  match_score = score\<rparr>)"

text \<open>Python's \<^verbatim>\<open>str.upper\<close>, on ASCII text: other characters are left as they are.\<close>

definition upper_char :: "char \<Rightarrow> char" where
  "upper_char ch =
     (let n = (of_char ch :: nat) in if 97 \<le> n \<and> n \<le> 122 then char_of (n - 32) else ch)"

definition upper :: "string \<Rightarrow> string" where
  "upper s = map upper_char s"

text \<open>
  The first loop nest of \<^verbatim>\<open>GetEntityTypesFromFields\<close>: one step of the inner loop,
  the inner loop over the types of a namespace, and the outer loop over the namespaces.
  The accumulator is the local \<^verbatim>\<open>entity_type_list\<close>.
\<close>

definition entity_type_step :: "string option \<Rightarrow> EntityType \<Rightarrow> EntityType list \<Rightarrow> EntityType list" where
  "entity_type_step general_type entity_type acc =
     (if is_abstract entity_type \<or> GetAllFields entity_type = [] then acc
      else case general_type of
             Some g \<Rightarrow>
               if upper g \<in> set (unqualified_parent_names entity_type)
               then acc @ [entity_type] else acc
           | None \<Rightarrow> acc @ [entity_type])"

definition entity_type_list :: "ConfigUniverse \<Rightarrow> string option \<Rightarrow> EntityType list" where
  "entity_type_list u general_type =
     fold (\<lambda>tns acc. fold (entity_type_step general_type) (map snd (valid_types_map tns)) acc)
       (GetEntityTypeNamespaces u) []"

text \<open>The second loop: the first exception raised by \<^verbatim>\<open>_CreateMatch\<close> ends it.\<close>

fun match_list :: "StandardField list \<Rightarrow> EntityType list \<Rightarrow> error + Match list" where
  "match_list field_list [] = Inr []"
| "match_list field_list (entity_type # rest) =
     (case CreateMatch field_list entity_type of
        Inl err \<Rightarrow> Inl err
      | Inr m \<Rightarrow>
          (case match_list field_list rest of
             Inl err \<Rightarrow> Inl err
           | Inr ms \<Rightarrow> Inr (m # ms)))"

definition GetEntityTypesFromFields ::
  "OntologyWrapper \<Rightarrow> StandardField list \<Rightarrow> string option \<Rightarrow> bool \<Rightarrow> error + Match list" where
  "GetEntityTypesFromFields self field_list general_type best_fit =
     (case match_list field_list (entity_type_list (universe self) general_type) of
        Inl err \<Rightarrow> Inl err
      | Inr ms \<Rightarrow>
          let match_list_sorted = sort_key GetMatchScore ms
          in if best_fit
             then Inr (filter (\<lambda>m. GetMatchScore m > match_score_threshold self)
                         match_list_sorted)
             else Inr match_list_sorted)"

subsection \<open>The worked example of the spec\<close>

definition fld :: "string \<Rightarrow> StandardField" where
  "fld n = \<lparr>namespace_name = [], standard_field_name = n\<rparr>"

definition qfield :: "string \<Rightarrow> bool \<Rightarrow> string \<times> OptWrapper" where
  "qfield n opt =
     (CHR ''/'' # n,
      \<lparr>ow_field = \<lparr>fp_namespace = [], fp_field = n, fp_increment = []\<rparr>, ow_optional = opt\<rparr>)"

definition ROOM :: EntityType where
  "ROOM = \<lparr>typename = ''ROOM'', is_abstract = False, inherited_fields_expanded = True,
           GetAllFields = [qfield ''temperature'' False, qfield ''occupancy'' False,
                           qfield ''humidity'' True],
           unqualified_parent_names = []\<rparr>"

definition FACILITIES :: TypeNamespace where
  "FACILITIES = \<lparr>tns_namespace = ''FACILITIES'', valid_types_map = [(''ROOM'', ROOM)]\<rparr>"

definition example_wrapper :: OntologyWrapper where
  "example_wrapper = init \<lparr>GetEntityTypeNamespaces = [FACILITIES]\<rparr>"

definition ROOM_fields :: "EntityTypeField fset" where
  "ROOM_fields = fset_of_list (map EntityTypeField_of (map snd (GetAllFields ROOM)))"

subsection \<open>A second namespace, with namespaced fields and parent tags\<close>

definition nsfield :: "string \<Rightarrow> string \<Rightarrow> bool \<Rightarrow> string \<times> OptWrapper" where
  "nsfield ns n opt =
     (ns @ CHR ''/'' # n,
      \<lparr>ow_field = \<lparr>fp_namespace = ns, fp_field = n, fp_increment = []\<rparr>, ow_optional = opt\<rparr>)"

definition FAN :: EntityType where
  "FAN = \<lparr>typename = ''FAN'', is_abstract = False, inherited_fields_expanded = True,
          GetAllFields = [nsfield ''SENSORS'' ''air_flow'' False,
                          nsfield ''METERS'' ''zone_temp'' True],
          unqualified_parent_names = [''fan'', ''EQUIPMENT'']\<rparr>"

definition DUCT :: EntityType where
  "DUCT = \<lparr>typename = ''DUCT'', is_abstract = True, inherited_fields_expanded = False,
           GetAllFields = [], unqualified_parent_names = [''EQUIPMENT'']\<rparr>"

definition HVAC :: TypeNamespace where
  "HVAC = \<lparr>tns_namespace = ''HVAC'', valid_types_map = [(''FAN'', FAN), (''DUCT'', DUCT)]\<rparr>"

definition campus_wrapper :: OntologyWrapper where
  "campus_wrapper = init \<lparr>GetEntityTypeNamespaces = [FACILITIES, HVAC]\<rparr>"

text \<open>The sort key the spec names for field lists: the pair of namespace and name.\<close>

definition namespace_and_name :: "EntityTypeField \<Rightarrow> string \<times> string" where
  "namespace_and_name f = (GetNamespaceName f, GetStandardFieldName f)"

section \<open>Properties\<close>

subsection \<open>Auxiliary facts\<close>

lemma ffilter_finsert:
  "ffilter P (finsert x A) = (if P x then finsert x (ffilter P A) else ffilter P A)"
  by auto

lemma ffilter_fempty: "ffilter P {||} = {||}"
  by auto

lemmas fset_eval = fcard_finsert_if fcard_fempty ffilter_finsert ffilter_fempty

lemma fcard_split: "int (fcard (A |\<inter>| B)) + int (fcard (A |-| B)) = int (fcard A)"
proof -
  have "(A |\<inter>| B) |\<inter>| (A |-| B) = {||}" by auto
  then have "fcard ((A |\<inter>| B) |\<union>| (A |-| B)) = fcard (A |\<inter>| B) + fcard (A |-| B)"
    by (rule fcard_funion_disjoint)
  moreover have "(A |\<inter>| B) |\<union>| (A |-| B) = A" by auto
  ultimately show ?thesis by simp
qed

lemma fcard_pos: "A \<noteq> {||} \<Longrightarrow> 0 < int (fcard A)"
  by (metis fcard_0_eq neq0_conv of_nat_0_less_iff)

lemma ratio_bounds:
  fixes m e n :: int
  assumes "0 \<le> m" "0 \<le> e" "m + e = n" "0 < n"
  shows "- 1 \<le> real_of_int (m - e) / real_of_int n \<and>
         real_of_int (m - e) / real_of_int n \<le> 1"
proof -
  have n: "0 < real_of_int n" using assms by simp
  have "- real_of_int n \<le> real_of_int (m - e)" "real_of_int (m - e) \<le> real_of_int n"
    using assms by linarith+
  then show ?thesis using n by (simp add: pos_le_divide_eq pos_divide_le_eq)
qed

lemmas example_defs =
  ROOM_fields_def ROOM_def qfield_def fld_def EntityTypeField_of_def StandardizeField_def

lemmas campus_defs =
  campus_wrapper_def example_wrapper_def init_def FACILITIES_def HVAC_def FAN_def DUCT_def
  ROOM_def nsfield_def qfield_def fld_def

lemmas ranking_defs =
  GetEntityTypesFromFields_def entity_type_list_def entity_type_step_def CreateMatch_def
  CalculateMatchScore_def EntityTypeField_of_def StandardizeField_def

lemma upper_fan: "upper ''fan'' = ''FAN''"
  by code_simp

lemma upper_equipment: "upper ''equipment'' = ''EQUIPMENT''"
  by code_simp

subsection \<open>The score\<close>

lemma CalculateMatchScore_empty:
  "CalculateMatchScore {||} C = Inl (ValueError ''Concrete field set cannot be empty.'')"
  by (simp add: CalculateMatchScore_def)

lemma CalculateMatchScore_nonempty:
  assumes "F \<noteq> {||}"
  shows "\<exists>s. CalculateMatchScore F C = Inr s"
proof -
  have "\<not> isl (CalculateMatchScore F C)"
    using assms unfolding CalculateMatchScore_def Let_def by simp
  then show ?thesis by (cases "CalculateMatchScore F C") auto
qed

text \<open>
  C6. With an empty concrete field set the scorer raises the \<^verbatim>\<open>ValueError\<close>
  ``Concrete field set cannot be empty.'' (the spec's EmptyFieldSetError) whatever the
  canonical field set is, and so returns no score; with a non-empty concrete field set
  it returns a score and raises nothing.
\<close>

theorem empty_field_set_error:
  "CalculateMatchScore {||} C = Inl (ValueError ''Concrete field set cannot be empty.'')
   \<and> (F \<noteq> {||} \<longrightarrow> (\<exists>s. CalculateMatchScore F C = Inr s))"
  using CalculateMatchScore_empty CalculateMatchScore_nonempty by blast

theorem empty_field_set_error_witness:
  "{|fld ''temperature''|} \<noteq> {||}
   \<and> CalculateMatchScore {||} ROOM_fields
       = Inl (ValueError ''Concrete field set cannot be empty.'')
   \<and> (\<exists>s. CalculateMatchScore {|fld ''temperature''|} ROOM_fields = Inr s)"
  using empty_field_set_error [of ROOM_fields "{|fld ''temperature''|}"] by simp

text \<open>
  C1. For a non-empty concrete field set \<open>F\<close> and a canonical field set \<open>C\<close> the
  score is \<open>((ma - e) / c) / 2\<close> when \<open>tr = 0\<close> and
  \<open>(((ma - e) / c) + ((mr - a) / tr)) / 2\<close> otherwise, with \<open>StdC\<close> the standardized
  \<open>C\<close>, \<open>StdR\<close> the standardized required part of \<open>C\<close>, \<open>ma = |F \<inter> StdC|\<close>,
  \<open>mr = |F \<inter> StdR|\<close>, \<open>tr = |StdR|\<close>, \<open>c = |F|\<close>, \<open>e = |F - StdC|\<close> and
  \<open>a = |StdR - F|\<close>. In the worked example (required temperature and occupancy,
  optional humidity) the concrete set of temperature and occupancy scores 1 and the
  concrete set of temperature and pressure scores 0.
\<close>

theorem match_score_formula:
  "(F \<noteq> {||} \<longrightarrow>
      CalculateMatchScore F C =
        (let StdC = StandardizeField |`| C;
             R = ffilter (\<lambda>f. is_optional f = False) C;
             StdR = StandardizeField |`| R;
             ma = int (fcard (F |\<inter>| StdC));
             mr = int (fcard (F |\<inter>| StdR));
             tr = int (fcard StdR);
             c = int (fcard F);
             e = int (fcard (F |-| StdC));
             a = int (fcard (StdR |-| F))
         in Inr (if tr = 0 then (real_of_int (ma - e) / real_of_int c) / 2
                 else ((real_of_int (ma - e) / real_of_int c)
                        + (real_of_int (mr - a) / real_of_int tr)) / 2)))
   \<and> CalculateMatchScore {|fld ''temperature'', fld ''occupancy''|} ROOM_fields = Inr 1
   \<and> CalculateMatchScore {|fld ''temperature'', fld ''pressure''|} ROOM_fields = Inr 0"
proof (intro conjI impI)
  assume "F \<noteq> {||}"
  then show "CalculateMatchScore F C =
        (let StdC = StandardizeField |`| C;
             R = ffilter (\<lambda>f. is_optional f = False) C;
             StdR = StandardizeField |`| R;
             ma = int (fcard (F |\<inter>| StdC));
             mr = int (fcard (F |\<inter>| StdR));
             tr = int (fcard StdR);
             c = int (fcard F);
             e = int (fcard (F |-| StdC));
             a = int (fcard (StdR |-| F))
         in Inr (if tr = 0 then (real_of_int (ma - e) / real_of_int c) / 2
                 else ((real_of_int (ma - e) / real_of_int c)
                        + (real_of_int (mr - a) / real_of_int tr)) / 2))"
    unfolding CalculateMatchScore_def Let_def by simp
next
  show "CalculateMatchScore {|fld ''temperature'', fld ''occupancy''|} ROOM_fields = Inr 1"
    by (simp add: CalculateMatchScore_def example_defs fset_eval Let_def)
next
  show "CalculateMatchScore {|fld ''temperature'', fld ''pressure''|} ROOM_fields = Inr 0"
    by (simp add: CalculateMatchScore_def example_defs fset_eval Let_def)
qed

theorem match_score_formula_witness:
  "{|fld ''temperature''|} \<noteq> {||}
   \<and> CalculateMatchScore {|fld ''temperature''|} ROOM_fields = Inr (1 / 2)"
  using match_score_formula [of "{|fld ''temperature''|}" ROOM_fields]
  by (simp add: example_defs fset_eval Let_def)

text \<open>
  C2. For a non-empty concrete field set and any canonical field set (required and
  optional fields in any mix, \<open>tr = 0\<close> included) the scorer returns a score, and the
  score lies in the closed interval from \<open>-1\<close> to \<open>1\<close>.
\<close>

theorem match_score_range:
  assumes "F \<noteq> {||}"
  shows "\<exists>s. CalculateMatchScore F C = Inr s \<and> - 1 \<le> s \<and> s \<le> 1"
proof -
  define StdC where "StdC = StandardizeField |`| C"
  define StdR where "StdR = StandardizeField |`| ffilter (\<lambda>f. \<not> is_optional f) C"
  define x where
    "x = real_of_int (int (fcard (F |\<inter>| StdC)) - int (fcard (F |-| StdC)))
           / real_of_int (int (fcard F))"
  define y where
    "y = real_of_int (int (fcard (F |\<inter>| StdR)) - int (fcard (StdR |-| F)))
           / real_of_int (int (fcard StdR))"
  have c: "0 < int (fcard F)" using assms by (rule fcard_pos)
  have x: "- 1 \<le> x \<and> x \<le> 1"
    unfolding x_def using c by (intro ratio_bounds) (simp_all add: fcard_split)
  have eq: "CalculateMatchScore F C
              = Inr (if int (fcard StdR) = 0 then x / 2 else (x + y) / 2)"
    using assms unfolding CalculateMatchScore_def Let_def x_def y_def StdC_def StdR_def by simp
  show ?thesis
  proof (cases "int (fcard StdR) = 0")
    case True
    then have "CalculateMatchScore F C = Inr (x / 2)" using eq by simp
    moreover have "- 1 \<le> x / 2 \<and> x / 2 \<le> 1" using x by simp
    ultimately show ?thesis by blast
  next
    case False
    then have "StdR \<noteq> {||}" by auto
    then have tr: "0 < int (fcard StdR)" by (rule fcard_pos)
    have "int (fcard (F |\<inter>| StdR)) + int (fcard (StdR |-| F)) = int (fcard StdR)"
      using fcard_split[of StdR F] by (simp add: inf_commute)
    then have y: "- 1 \<le> y \<and> y \<le> 1"
      unfolding y_def using tr by (intro ratio_bounds) simp_all
    have "CalculateMatchScore F C = Inr ((x + y) / 2)" using eq False by simp
    moreover have "- 1 \<le> (x + y) / 2 \<and> (x + y) / 2 \<le> 1" using x y by simp
    ultimately show ?thesis by blast
  qed
qed

theorem match_score_range_witness:
  "{|fld ''pressure''|} \<noteq> {||}
   \<and> (\<exists>s. CalculateMatchScore {|fld ''pressure''|} ROOM_fields = Inr s \<and> - 1 \<le> s \<and> s \<le> 1)"
proof -
  have ne: "{|fld ''pressure''|} \<noteq> {||}" by simp
  show ?thesis using ne match_score_range [OF ne, of ROOM_fields] by simp
qed

subsection \<open>Field lists\<close>

text \<open>
  C5, as the code has it. When \<^verbatim>\<open>GetFieldsForTypeName\<close> succeeds, the returned fields
  are sorted ascending by field name (\<^verbatim>\<open>GetStandardFieldName\<close>) alone: the namespace
  is no part of the sort key.
\<close>

theorem fields_sorted_by_name:
  assumes "GetFieldsForTypeName self namespace entity_type_name required_only = Inr fs"
  shows "sorted (map GetStandardFieldName fs)"
  using assms unfolding GetFieldsForTypeName_def Let_def
  by (auto split: option.splits if_splits simp del: sort_key_simps)

lemma FAN_fields:
  "GetFieldsForTypeName campus_wrapper ''HVAC'' ''FAN'' False
     = Inr [EntityTypeField_of (snd (nsfield ''SENSORS'' ''air_flow'' False)),
            EntityTypeField_of (snd (nsfield ''METERS'' ''zone_temp'' True))]"
  by (simp add: GetFieldsForTypeName_def GetEntityType_def EntityTypeField_of_def campus_defs)

theorem fields_sorted_by_name_witness:
  "GetFieldsForTypeName campus_wrapper ''HVAC'' ''FAN'' False
     = Inr [EntityTypeField_of (snd (nsfield ''SENSORS'' ''air_flow'' False)),
            EntityTypeField_of (snd (nsfield ''METERS'' ''zone_temp'' True))]
   \<and> sorted [''air_flow'', ''zone_temp'']"
  using fields_sorted_by_name [OF FAN_fields] FAN_fields
  by (simp add: EntityTypeField_of_def nsfield_def)

text \<open>
  C5, as the spec states it, fails: the fields of \<open>FAN\<close> come back as
  \<open>SENSORS/air_flow\<close>, \<open>METERS/zone_temp\<close>, which is ascending by name and not by
  the pair of namespace and name.
\<close>

theorem fields_sorted_by_namespace_and_name_counterexample:
  "GetFieldsForTypeName campus_wrapper ''HVAC'' ''FAN'' False
     = Inr [EntityTypeField_of (snd (nsfield ''SENSORS'' ''air_flow'' False)),
            EntityTypeField_of (snd (nsfield ''METERS'' ''zone_temp'' True))]
   \<and> \<not> sorted (map namespace_and_name
            [EntityTypeField_of (snd (nsfield ''SENSORS'' ''air_flow'' False)),
             EntityTypeField_of (snd (nsfield ''METERS'' ''zone_temp'' True))])"
  by (simp add: FAN_fields EntityTypeField_of_def nsfield_def namespace_and_name_def)

text \<open>
  C8. When the namespace and type name resolve to a type whose inherited fields are not
  expanded, \<^verbatim>\<open>GetFieldsForTypeName\<close> raises the \<^verbatim>\<open>Exception\<close> ``Inherited fields must
  be expanded to query fields...'' (the spec's InheritanceNotExpandedError) and returns
  no list, whatever \<^verbatim>\<open>required_only\<close> is. When they do not resolve, it raises a
  \<^verbatim>\<open>ValueError\<close> (the spec's UndefinedTypeError) whose message is ``... is not
  defined in global namespace.'' for an empty namespace and ``... is not defined in
  namespace: N.'' for a given namespace \<open>N\<close>; for one type name the two messages are
  never the same text.
\<close>

theorem unexpanded_or_undefined_type_error:
  "(GetEntityType (universe self) namespace entity_type_name = Some entity_type
      \<and> \<not> inherited_fields_expanded entity_type \<longrightarrow>
    GetFieldsForTypeName self namespace entity_type_name required_only
      = Inl (Exception
               (''Inherited fields must be expanded to query fields.'' @ [CHR 0x0A]
                  @ ''Run NamespaceValidator on your ConfigUniverse to expand fields.'')))
   \<and> (GetEntityType (universe self) namespace entity_type_name = None \<longrightarrow>
        GetFieldsForTypeName self namespace entity_type_name required_only
          = Inl (ValueError
                   (if namespace = []
                    then CHR 0x0A # entity_type_name @ '' is not defined in global namespace.''
                    else CHR 0x0A # entity_type_name @ '' is not defined in namespace: ''
                           @ namespace @ ''.'')))
   \<and> CHR 0x0A # entity_type_name @ '' is not defined in global namespace.''
       \<noteq> CHR 0x0A # entity_type_name @ '' is not defined in namespace: '' @ given @ ''.''"
  by (simp add: GetFieldsForTypeName_def)

lemma DUCT_resolves:
  "GetEntityType (universe campus_wrapper) ''HVAC'' ''DUCT'' = Some DUCT
   \<and> \<not> inherited_fields_expanded DUCT"
  by (simp add: GetEntityType_def campus_defs)

lemma PUMP_undefined:
  "GetEntityType (universe campus_wrapper) ''HVAC'' ''PUMP'' = None
   \<and> GetEntityType (universe campus_wrapper) [] ''ROOM'' = None"
  by (simp add: GetEntityType_def campus_defs)

theorem unexpanded_or_undefined_type_error_witness:
  "(GetEntityType (universe campus_wrapper) ''HVAC'' ''DUCT'' = Some DUCT
      \<and> \<not> inherited_fields_expanded DUCT)
   \<and> GetFieldsForTypeName campus_wrapper ''HVAC'' ''DUCT'' True
       = Inl (Exception
               (''Inherited fields must be expanded to query fields.'' @ [CHR 0x0A]
                  @ ''Run NamespaceValidator on your ConfigUniverse to expand fields.''))
   \<and> GetEntityType (universe campus_wrapper) ''HVAC'' ''PUMP'' = None
   \<and> GetFieldsForTypeName campus_wrapper ''HVAC'' ''PUMP'' False
       = Inl (ValueError (CHR 0x0A # ''PUMP is not defined in namespace: HVAC.''))
   \<and> GetEntityType (universe campus_wrapper) [] ''ROOM'' = None
   \<and> GetFieldsForTypeName campus_wrapper [] ''ROOM'' False
       = Inl (ValueError (CHR 0x0A # ''ROOM is not defined in global namespace.''))"
  using unexpanded_or_undefined_type_error
          [of campus_wrapper "''HVAC''" "''DUCT''" DUCT True]
        unexpanded_or_undefined_type_error
          [of campus_wrapper "''HVAC''" "''PUMP''" DUCT False]
        unexpanded_or_undefined_type_error
          [of campus_wrapper "[]" "''ROOM''" DUCT False]
        DUCT_resolves PUMP_undefined
  by simp

text \<open>
  C9. When both calls succeed, the output for \<^verbatim>\<open>required_only = True\<close> is the output
  for \<^verbatim>\<open>required_only = False\<close> with the optional fields taken out, the remaining ones
  in the same order.
\<close>

theorem required_only_is_filter:
  assumes "GetFieldsForTypeName self namespace entity_type_name False = Inr all_fields"
      and "GetFieldsForTypeName self namespace entity_type_name True = Inr required"
  shows "required = filter (\<lambda>f. is_optional f = False) all_fields"
  using assms unfolding GetFieldsForTypeName_def Let_def
  by (auto split: option.splits if_splits simp: filter_sort)

lemma FAN_required_fields:
  "GetFieldsForTypeName campus_wrapper ''HVAC'' ''FAN'' True
     = Inr [EntityTypeField_of (snd (nsfield ''SENSORS'' ''air_flow'' False))]"
  by (simp add: GetFieldsForTypeName_def GetEntityType_def EntityTypeField_of_def campus_defs)

theorem required_only_is_filter_witness:
  "GetFieldsForTypeName campus_wrapper ''HVAC'' ''FAN'' False
     = Inr [EntityTypeField_of (snd (nsfield ''SENSORS'' ''air_flow'' False)),
            EntityTypeField_of (snd (nsfield ''METERS'' ''zone_temp'' True))]
   \<and> GetFieldsForTypeName campus_wrapper ''HVAC'' ''FAN'' True
       = Inr [EntityTypeField_of (snd (nsfield ''SENSORS'' ''air_flow'' False))]
   \<and> [EntityTypeField_of (snd (nsfield ''SENSORS'' ''air_flow'' False))]
       = filter (\<lambda>f. is_optional f = False)
           [EntityTypeField_of (snd (nsfield ''SENSORS'' ''air_flow'' False)),
            EntityTypeField_of (snd (nsfield ''METERS'' ''zone_temp'' True))]"
  using required_only_is_filter [OF FAN_fields FAN_required_fields]
        FAN_fields FAN_required_fields
  by simp

subsection \<open>Candidate types\<close>

lemma fold_entity_type_step:
  "fold (entity_type_step general_type) ts acc =
     acc @ filter (\<lambda>t. \<not> is_abstract t \<and> GetAllFields t \<noteq> []
                     \<and> (case general_type of
                          None \<Rightarrow> True
                        | Some g \<Rightarrow> upper g \<in> set (unqualified_parent_names t))) ts"
  by (induction ts arbitrary: acc) (auto simp: entity_type_step_def split: option.splits)

lemma fold_append_each:
  "fold (\<lambda>x acc. acc @ f x) xs acc = acc @ concat (map f xs)"
  by (induction xs arbitrary: acc) auto

lemma entity_type_list_filter:
  "entity_type_list u general_type =
     filter (\<lambda>t. \<not> is_abstract t \<and> GetAllFields t \<noteq> []
               \<and> (case general_type of
                    None \<Rightarrow> True
                  | Some g \<Rightarrow> upper g \<in> set (unqualified_parent_names t)))
       (concat (map (\<lambda>tns. map snd (valid_types_map tns)) (GetEntityTypeNamespaces u)))"
  unfolding entity_type_list_def fold_entity_type_step
  by (simp add: fold_append_each filter_concat comp_def)

subsection \<open>Matches\<close>

lemma fset_of_list_eq_iff: "fset_of_list xs = fset_of_list ys \<longleftrightarrow> set xs = set ys"
  by (metis fset_of_list.rep_eq fset_inject)

lemma fset_of_list_empty_iff: "fset_of_list xs = {||} \<longleftrightarrow> xs = []"
  by (cases xs) auto

lemma CreateMatch_nonempty:
  assumes "fl \<noteq> []"
  shows "CreateMatch fl t =
    Inr \<lparr>match_field_list = fl, match_entity_type = t,
         match_score = projr (CalculateMatchScore (fset_of_list fl)
            (fset_of_list (map EntityTypeField_of (map snd (GetAllFields t)))))\<rparr>"
proof -
  have "fset_of_list fl \<noteq> {||}" using assms by (simp add: fset_of_list_empty_iff)
  from CalculateMatchScore_nonempty[OF this] obtain s where
    "CalculateMatchScore (fset_of_list fl)
       (fset_of_list (map EntityTypeField_of (map snd (GetAllFields t)))) = Inr s"
    by blast
  then show ?thesis by (simp add: CreateMatch_def)
qed

lemma match_list_nonempty:
  assumes "fl \<noteq> []"
  shows "match_list fl ts = Inr (map (\<lambda>t. projr (CreateMatch fl t)) ts)"
  by (induction ts) (simp_all add: CreateMatch_nonempty[OF assms])

lemma insort_key_map:
  "insort_key f (g x) (map g ys) = map g (insort_key (\<lambda>y. f (g y)) x ys)"
  by (induction ys) auto

lemma sort_key_map:
  "sort_key f (map g xs) = map g (sort_key (\<lambda>y. f (g y)) xs)"
  by (induction xs) (simp_all add: insort_key_map)

subsection \<open>Ranking\<close>

text \<open>
  C3. Whatever the concrete field list, the tag and the best-fit flag are, the list
  of matches that \<^verbatim>\<open>GetEntityTypesFromFields\<close> returns is in ascending order of score:
  of two adjacent matches the earlier one's score is at most the later one's.
\<close>

theorem ranking_sorted_ascending:
  assumes "GetEntityTypesFromFields self field_list general_type best_fit = Inr ms"
  shows "sorted (map GetMatchScore ms)
         \<and> (\<forall>i. Suc i < length ms \<longrightarrow> GetMatchScore (ms ! i) \<le> GetMatchScore (ms ! Suc i))"
proof -
  have s: "sorted (map GetMatchScore ms)"
    using assms unfolding GetEntityTypesFromFields_def Let_def
    by (auto split: sum.splits if_splits simp: sorted_filter)
  then have "\<forall>i. Suc i < length (map GetMatchScore ms) \<longrightarrow>
               map GetMatchScore ms ! i \<le> map GetMatchScore ms ! Suc i"
    by (simp only: sorted_iff_nth_Suc)
  then show ?thesis using s by simp
qed

lemma campus_ranking:
  "GetEntityTypesFromFields campus_wrapper [fld ''temperature'', fld ''occupancy''] None False
     = Inr [\<lparr>match_field_list = [fld ''temperature'', fld ''occupancy''],
              match_entity_type = FAN, match_score = - 1\<rparr>,
            \<lparr>match_field_list = [fld ''temperature'', fld ''occupancy''],
              match_entity_type = ROOM, match_score = 1\<rparr>]"
  by (simp add: ranking_defs campus_defs fset_eval Let_def)

theorem ranking_sorted_ascending_witness:
  "GetEntityTypesFromFields campus_wrapper [fld ''temperature'', fld ''occupancy''] None False
     = Inr [\<lparr>match_field_list = [fld ''temperature'', fld ''occupancy''],
              match_entity_type = FAN, match_score = - 1\<rparr>,
            \<lparr>match_field_list = [fld ''temperature'', fld ''occupancy''],
              match_entity_type = ROOM, match_score = 1\<rparr>]
   \<and> sorted [- 1, 1 :: real]"
  using ranking_sorted_ascending [OF campus_ranking] campus_ranking by simp

text \<open>
  C4, as the code has it. With \<^verbatim>\<open>best_fit = True\<close> the result is the result for
  \<^verbatim>\<open>best_fit = False\<close> restricted, in the same order, to the matches whose score is
  strictly above the wrapper's \<^verbatim>\<open>match_score_threshold\<close>; a wrapper is created with
  the threshold \<open>-0.5\<close>. The restriction need not drop anything.
\<close>

theorem best_fit_is_threshold_filter:
  "(GetEntityTypesFromFields self field_list general_type False = Inr ms \<longrightarrow>
      GetEntityTypesFromFields self field_list general_type True
        = Inr (filter (\<lambda>m. GetMatchScore m > match_score_threshold self) ms))
   \<and> match_score_threshold (init u) = - 1 / 2"
  unfolding GetEntityTypesFromFields_def Let_def init_def
  by (auto split: sum.splits)

theorem best_fit_is_threshold_filter_witness:
  "GetEntityTypesFromFields campus_wrapper [fld ''temperature'', fld ''occupancy''] None False
     = Inr [\<lparr>match_field_list = [fld ''temperature'', fld ''occupancy''],
              match_entity_type = FAN, match_score = - 1\<rparr>,
            \<lparr>match_field_list = [fld ''temperature'', fld ''occupancy''],
              match_entity_type = ROOM, match_score = 1\<rparr>]
   \<and> GetEntityTypesFromFields campus_wrapper [fld ''temperature'', fld ''occupancy''] None True
     = Inr [\<lparr>match_field_list = [fld ''temperature'', fld ''occupancy''],
              match_entity_type = ROOM, match_score = 1\<rparr>]"
  using best_fit_is_threshold_filter
          [of campus_wrapper "[fld ''temperature'', fld ''occupancy'']" None _ "universe campus_wrapper"]
        campus_ranking
  by (simp add: campus_wrapper_def init_def)

text \<open>
  C4, as the spec states it, fails: in the spec's example universe the concrete fields
  temperature and occupancy score 1 for \<open>ROOM\<close>, above the threshold, so both calls
  return the same one-element list and the best-fit result is no strict subset.
\<close>

theorem best_fit_strict_subset_counterexample:
  "GetEntityTypesFromFields example_wrapper [fld ''temperature'', fld ''occupancy''] None True
     = GetEntityTypesFromFields example_wrapper [fld ''temperature'', fld ''occupancy''] None False
   \<and> GetEntityTypesFromFields example_wrapper [fld ''temperature'', fld ''occupancy''] None False
     = Inr [\<lparr>match_field_list = [fld ''temperature'', fld ''occupancy''],
              match_entity_type = ROOM, match_score = 1\<rparr>]"
  by (simp add: ranking_defs campus_defs fset_eval Let_def)

text \<open>
  C7, as the code has it. The types scored are the types of all namespaces, in
  iteration order, that are not abstract and have a non-empty field mapping and, when a
  tag is given, have the upper-cased tag among their parent names. The tag's case is
  thus ignored; the parent names are compared as they are. For a non-empty field list
  the returned matches are for these types, each once.
\<close>

theorem candidate_types:
  "entity_type_list (universe self) general_type =
     filter (\<lambda>t. \<not> is_abstract t \<and> GetAllFields t \<noteq> []
               \<and> (case general_type of
                    None \<Rightarrow> True
                  | Some g \<Rightarrow> upper g \<in> set (unqualified_parent_names t)))
       (concat (map (\<lambda>tns. map snd (valid_types_map tns))
                  (GetEntityTypeNamespaces (universe self))))
   \<and> (field_list \<noteq> [] \<longrightarrow>
        (\<exists>ms. GetEntityTypesFromFields self field_list general_type False = Inr ms
              \<and> mset (map match_entity_type ms)
                  = mset (entity_type_list (universe self) general_type)))"
proof (intro conjI impI)
  show "entity_type_list (universe self) general_type =
     filter (\<lambda>t. \<not> is_abstract t \<and> GetAllFields t \<noteq> []
               \<and> (case general_type of
                    None \<Rightarrow> True
                  | Some g \<Rightarrow> upper g \<in> set (unqualified_parent_names t)))
       (concat (map (\<lambda>tns. map snd (valid_types_map tns))
                  (GetEntityTypeNamespaces (universe self))))"
    by (rule entity_type_list_filter)
next
  assume ne: "field_list \<noteq> []"
  define ts where "ts = entity_type_list (universe self) general_type"
  define mk where "mk = (\<lambda>t. projr (CreateMatch field_list t))"
  have ty: "match_entity_type (mk t) = t" for t
    by (simp add: mk_def CreateMatch_nonempty[OF ne])
  have "GetEntityTypesFromFields self field_list general_type False
          = Inr (sort_key GetMatchScore (map mk ts))"
    by (simp add: GetEntityTypesFromFields_def match_list_nonempty[OF ne] ts_def mk_def)
  moreover have "mset (map match_entity_type (sort_key GetMatchScore (map mk ts))) = mset ts"
  proof -
    have "mset (map match_entity_type (sort_key GetMatchScore (map mk ts)))
            = image_mset match_entity_type (mset (map mk ts))"
      by (simp only: mset_map mset_sort)
    also have "\<dots> = mset (map (\<lambda>t. match_entity_type (mk t)) ts)" by (simp add: multiset.map_comp comp_def)
    finally show ?thesis by (simp add: ty)
  qed
  ultimately show "\<exists>ms. GetEntityTypesFromFields self field_list general_type False = Inr ms
              \<and> mset (map match_entity_type ms)
                  = mset (entity_type_list (universe self) general_type)"
    unfolding ts_def by blast
qed

lemma campus_equipment:
  "entity_type_list (universe campus_wrapper) (Some ''equipment'') = [FAN]"
  by (simp add: entity_type_list_def entity_type_step_def upper_equipment campus_defs)

theorem candidate_types_witness:
  "[fld ''air_flow''] \<noteq> []
   \<and> entity_type_list (universe campus_wrapper) (Some ''equipment'') = [FAN]
   \<and> (\<exists>ms. GetEntityTypesFromFields campus_wrapper [fld ''air_flow''] (Some ''equipment'') False
               = Inr ms
            \<and> mset (map match_entity_type ms) = {#FAN#})"
  using candidate_types [of campus_wrapper "Some ''equipment''" "[fld ''air_flow'']"]
        campus_equipment
  by simp

text \<open>
  C7, as the spec states it, fails: \<open>FAN\<close> is concrete, has fields and has the parent
  name \<open>fan\<close>, yet with the tag \<open>fan\<close> it is no candidate, since the code looks for
  \<open>FAN\<close> among the parent names.
\<close>

theorem candidate_case_insensitive_counterexample:
  "GetEntityType (universe campus_wrapper) ''HVAC'' ''FAN'' = Some FAN
   \<and> \<not> is_abstract FAN \<and> GetAllFields FAN \<noteq> []
   \<and> ''fan'' \<in> set (unqualified_parent_names FAN)
   \<and> entity_type_list (universe campus_wrapper) (Some ''fan'') = []
   \<and> GetEntityTypesFromFields campus_wrapper [fld ''air_flow''] (Some ''fan'') False = Inr []"
  by (simp add: GetEntityType_def GetEntityTypesFromFields_def entity_type_list_def
        entity_type_step_def upper_fan campus_defs)


text \<open>
  C10. Two concrete field lists with the same set of fields (one a permutation of the
  other, or differing in repeated entries) give every type the same score, and give
  rankings that agree in their types and scores position by position (or fail alike),
  for every universe, tag and best-fit flag.
\<close>

theorem same_fields_same_scores:
  assumes "set fl1 = set fl2"
  shows "map_sum id GetMatchScore (CreateMatch fl1 entity_type)
           = map_sum id GetMatchScore (CreateMatch fl2 entity_type)
         \<and> map_sum id (map (\<lambda>m. (match_entity_type m, GetMatchScore m)))
             (GetEntityTypesFromFields self fl1 general_type best_fit)
           = map_sum id (map (\<lambda>m. (match_entity_type m, GetMatchScore m)))
               (GetEntityTypesFromFields self fl2 general_type best_fit)"
proof
  have feq: "fset_of_list fl1 = fset_of_list fl2"
    using assms by (simp add: fset_of_list_eq_iff)
  then show "map_sum id GetMatchScore (CreateMatch fl1 entity_type)
               = map_sum id GetMatchScore (CreateMatch fl2 entity_type)"
    by (simp add: CreateMatch_def Let_def split: sum.splits)
  show "map_sum id (map (\<lambda>m. (match_entity_type m, GetMatchScore m)))
             (GetEntityTypesFromFields self fl1 general_type best_fit)
           = map_sum id (map (\<lambda>m. (match_entity_type m, GetMatchScore m)))
               (GetEntityTypesFromFields self fl2 general_type best_fit)"
  proof (cases "fl1 = []")
    case True
    then have "fl2 = []" using assms by simp
    with True show ?thesis by simp
  next
    case False
    then have ne2: "fl2 \<noteq> []" using assms by auto
    define sc where
      "sc = (\<lambda>t :: EntityType. projr (CalculateMatchScore (fset_of_list fl1)
                (fset_of_list (map EntityTypeField_of (map snd (GetAllFields t))))))"
    define ts where "ts = entity_type_list (universe self) general_type"
    have m: "match_list fl ts
               = Inr (map (\<lambda>t. \<lparr>match_field_list = fl, match_entity_type = t,
                                  match_score = sc t\<rparr>) ts)"
      if "fl \<noteq> []" "fset_of_list fl = fset_of_list fl1" for fl
      using that by (simp add: match_list_nonempty CreateMatch_nonempty sc_def)
    have r: "map_sum id (map (\<lambda>m. (match_entity_type m, GetMatchScore m)))
               (GetEntityTypesFromFields self fl general_type best_fit)
             = Inr (map (\<lambda>t. (t, sc t))
                 (if best_fit
                  then filter (\<lambda>t. sc t > match_score_threshold self) (sort_key sc ts)
                  else sort_key sc ts))"
      if "fl \<noteq> []" "fset_of_list fl = fset_of_list fl1" for fl
      unfolding GetEntityTypesFromFields_def Let_def ts_def[symmetric] m[OF that]
      by (simp add: sort_key_map filter_map comp_def)
    show ?thesis using r[OF False refl] r[OF ne2 feq[symmetric]] by simp
  qed
qed

lemma campus_ranking_pairs:
  "map_sum id (map (\<lambda>m. (match_entity_type m, GetMatchScore m)))
     (GetEntityTypesFromFields campus_wrapper [fld ''temperature'', fld ''occupancy''] None False)
   = Inr [(FAN, - 1), (ROOM, 1)]"
  by (simp add: campus_ranking)

theorem same_fields_same_scores_witness:
  "set [fld ''temperature'', fld ''occupancy'']
     = set [fld ''occupancy'', fld ''temperature'', fld ''occupancy'']
   \<and> map_sum id (map (\<lambda>m. (match_entity_type m, GetMatchScore m)))
       (GetEntityTypesFromFields campus_wrapper
          [fld ''occupancy'', fld ''temperature'', fld ''occupancy''] None False)
     = Inr [(FAN, - 1), (ROOM, 1)]"
proof -
  have h: "set [fld ''temperature'', fld ''occupancy'']
             = set [fld ''occupancy'', fld ''temperature'', fld ''occupancy'']"
    by auto
  show ?thesis
    using same_fields_same_scores [OF h, of FAN campus_wrapper None False]
          campus_ranking_pairs h
    by simp
qed

end
